theory Spec2Isabelle
  imports Main "HOL-Library.AList"
begin

section \<open>organize_desktop.py: strings, the category table, the classifier\<close>

text \<open>
  A Python string is modelled as \<^typ>\<open>string\<close>, the bytes of its UTF-8 encoding.
  \<open>str.lower\<close> is Python's Unicode lowering, which is not defined here: the functions of the
  program take it from the environment (\<open>str_lower\<close> below). What is known of it and of
  \<open>str.upper\<close> is how they act on strings of ASCII characters: \<open>ascii_lower\<close> and
  \<open>ascii_upper\<close>.
\<close>

definition lower_char :: "char \<Rightarrow> char" where
  "lower_char c =
     (let n = (of_char c :: nat) in if 65 \<le> n \<and> n \<le> 90 then char_of (n + 32) else c)"

definition upper_char :: "char \<Rightarrow> char" where
  "upper_char c =
     (let n = (of_char c :: nat) in if 97 \<le> n \<and> n \<le> 122 then char_of (n - 32) else c)"

definition ascii_lower :: "string \<Rightarrow> string" where
  "ascii_lower s = map lower_char s"

definition ascii_upper :: "string \<Rightarrow> string" where
  "ascii_upper s = map upper_char s"

definition is_ascii :: "string \<Rightarrow> bool" where
  "is_ascii s = list_all (\<lambda>c. (of_char c :: nat) < 128) s"

text \<open>A case mapping of Python acts on ASCII strings as its ASCII version does.\<close>

definition on_ascii :: "(string \<Rightarrow> string) \<Rightarrow> (string \<Rightarrow> string) \<Rightarrow> bool" where
  "on_ascii f g = (\<forall>s. is_ascii s \<longrightarrow> f s = g s)"

text \<open>The table \<open>CATEGORIES\<close> (lines 18-25), in the dictionary's insertion order.\<close>

definition CATEGORIES :: "(string \<times> string list) list" where
  "CATEGORIES =
    [(''Images'', [''.png'', ''.jpg'', ''.jpeg'', ''.gif'', ''.bmp'', ''.svg'', ''.webp'']),
     (''Documents'', [''.pdf'', ''.docx'', ''.doc'', ''.xlsx'', ''.xls'', ''.pptx'', ''.txt'', ''.md'']),
     (''Archives'', [''.zip'', ''.tar'', ''.gz'', ''.rar'', ''.7z'']),
     (''Code'', [''.py'', ''.js'', ''.ts'', ''.java'', ''.c'', ''.cpp'', ''.h'', ''.html'', ''.css'', ''.json'']),
     (''Audio'', [''.mp3'', ''.wav'', ''.flac'', ''.aac'']),
     (''Video'', [''.mp4'', ''.mkv'', ''.mov'', ''.avi''])]"

definition LOG_FILE :: string where
  "LOG_FILE = ''.organize_log.json''"

text \<open>
  \<open>category_for\<close> (lines 29-34), with \<open>str.lower\<close> as its first argument: the loop over
  \<open>CATEGORIES.items()\<close> returns at the first category whose set holds the lowered
  extension.
\<close>

fun first_category :: "(string \<times> string list) list \<Rightarrow> string \<Rightarrow> string" where
  "first_category [] ext = ''Others''"
| "first_category ((cat, exts) # rest) ext =
     (if ext \<in> set exts then cat else first_category rest ext)"

definition category_for :: "(string \<Rightarrow> string) \<Rightarrow> string \<Rightarrow> string" where
  "category_for lw ext = first_category CATEGORIES (lw ext)"

section \<open>Paths (pathlib)\<close>

text \<open>
  A path is the list of its parts. A relative path has the part \<open>.\<close> at its head, so
  \<open>Path(".")\<close> is \<open>[''.'']\<close> and \<open>Path("a/b")\<close> is \<open>[''.'', ''a'', ''b'']\<close>; every other list
  is an absolute path, \<open>[]\<close> the root. \<open>p / n\<close> for a name \<open>n\<close> is \<open>p @ [n]\<close>. A part \<open>..\<close>
  stays in the list, as in pathlib; the system resolves it (\<open>canonical\<close> below).
\<close>

type_synonym path = "string list"

definition is_relative :: "path \<Rightarrow> bool" where
  "is_relative p = (p \<noteq> [] \<and> hd p = ''.'')"

definition name :: "path \<Rightarrow> string" where
  "name p = (if p = [] \<or> p = [''.''] then [] else last p)"

definition parent :: "path \<Rightarrow> path" where
  "parent p = (if p = [''.''] then p else butlast p)"

text \<open>\<open>str.rfind\<close>: the index of the last occurrence, or \<open>-1\<close>.\<close>

fun rfind :: "char \<Rightarrow> string \<Rightarrow> int" where
  "rfind c [] = - 1"
| "rfind c (x # xs) =
     (let r = rfind c xs in if 0 \<le> r then r + 1 else if x = c then 0 else - 1)"

text \<open>
  \<open>PurePath.suffix\<close> and \<open>PurePath.stem\<close>: the name is cut at its last dot when that dot
  is neither its first nor its last character.
\<close>

definition suffix :: "path \<Rightarrow> string" where
  "suffix p =
     (let nm = name p; i = rfind (CHR ''.'') nm
      in if 0 < i \<and> i < int (length nm) - 1 then drop (nat i) nm else [])"

definition stem :: "path \<Rightarrow> string" where
  "stem p =
     (let nm = name p; i = rfind (CHR ''.'') nm
      in if 0 < i \<and> i < int (length nm) - 1 then take (nat i) nm else nm)"

text \<open>
  \<open>str(path)\<close> and \<open>Path(string)\<close>. \<open>Path\<close> drops empty and \<open>.\<close> segments; a string that
  starts with a slash is absolute. (pathlib keeps exactly two leading slashes apart; the
  system reads them as one, and so does the model.)
\<close>

definition join_parts :: "string list \<Rightarrow> string" where
  "join_parts ps = (case ps of [] \<Rightarrow> [] | x # xs \<Rightarrow> x @ concat (map (\<lambda>c. CHR ''/'' # c) xs))"

definition str_path :: "path \<Rightarrow> string" where
  "str_path p =
     (if p = [''.''] then ''.''
      else if is_relative p then join_parts (tl p)
      else CHR ''/'' # join_parts p)"

fun split_sep :: "char \<Rightarrow> string \<Rightarrow> string list" where
  "split_sep c [] = [[]]"
| "split_sep c (x # xs) =
     (if x = c then [] # split_sep c xs
      else (case split_sep c xs of [] \<Rightarrow> [[x]] | w # ws \<Rightarrow> (x # w) # ws))"

definition Path :: "string \<Rightarrow> path" where
  "Path s =
     (let parts = filter (\<lambda>c. c \<noteq> [] \<and> c \<noteq> ''.'') (split_sep (CHR ''/'') s)
      in if s \<noteq> [] \<and> hd s = CHR ''/'' then parts else ''.'' # parts)"

section \<open>Errors, JSON values, the clock\<close>

text \<open>
  The exceptions of a run. \<open>OSError n\<close> is an \<open>OSError\<close> with errno \<open>n\<close> that has no class
  of its own (36 \<open>ENAMETOOLONG\<close>, 22 \<open>EINVAL\<close>, 39 \<open>ENOTEMPTY\<close>, 9 \<open>EBADF\<close>, 40 \<open>ELOOP\<close>,
  16 \<open>EBUSY\<close>); \<open>ValueError\<close> stands also for its subclasses \<open>JSONDecodeError\<close> and
  \<open>UnicodeDecodeError\<close>; \<open>ShutilError\<close> is \<open>shutil.Error\<close>.
\<close>

datatype error =
    FileNotFoundError | FileExistsError | NotADirectoryError | IsADirectoryError
  | PermissionError | OSError nat
  | ShutilError | KeyError | TypeError | AttributeError | ValueError | RuntimeError

definition is_OSError :: "error \<Rightarrow> bool" where
  "is_OSError e =
     (case e of
        FileNotFoundError \<Rightarrow> True | FileExistsError \<Rightarrow> True | NotADirectoryError \<Rightarrow> True
      | IsADirectoryError \<Rightarrow> True | PermissionError \<Rightarrow> True | OSError n \<Rightarrow> True
      | ShutilError \<Rightarrow> True | _ \<Rightarrow> False)"

text \<open>\<open>pathlib._ignore_error\<close>: \<open>ENOENT\<close>, \<open>ENOTDIR\<close>, \<open>EBADF\<close>, \<open>ELOOP\<close>.\<close>

definition ignore_error :: "error \<Rightarrow> bool" where
  "ignore_error e =
     (e = FileNotFoundError \<or> e = NotADirectoryError \<or> e = OSError 9 \<or> e = OSError 40)"

text \<open>\<open>PurePath.with_name\<close> raises \<open>ValueError\<close> on a path with an empty name.\<close>

definition with_name :: "path \<Rightarrow> string \<Rightarrow> error + path" where
  "with_name p nm = (if name p = [] then Inl ValueError else Inr (butlast p @ [nm]))"

text \<open>
  What \<open>json.loads\<close> returns and \<open>json.dumps\<close> takes. A Python dict is an association
  list in insertion order. A float is a double: \<open>Finite m e\<close> is \<open>m * 2 ^ e\<close>.
\<close>

datatype double = Finite int int | Infinity bool | NaN

datatype json =
    JNull | JBool bool | JNum int | JFloat double | JStr string
  | JArr "json list" | JObj "(string \<times> json) list"

text \<open>\<open>x[k]\<close> for a string key \<open>k\<close>, \<open>x.get(k)\<close>, \<open>d[k] = v\<close>, truth value, \<open>reversed(x)\<close>,
  \<open>x.extend(ys)\<close>.\<close>

fun getitem :: "json \<Rightarrow> string \<Rightarrow> error + json" where
  "getitem (JObj kvs) k = (case map_of kvs k of None \<Rightarrow> Inl KeyError | Some v \<Rightarrow> Inr v)"
| "getitem j k = Inl TypeError"

fun dict_get :: "json \<Rightarrow> string \<Rightarrow> error + json" where
  "dict_get (JObj kvs) k = (case map_of kvs k of None \<Rightarrow> Inr JNull | Some v \<Rightarrow> Inr v)"
| "dict_get j k = Inl AttributeError"

fun setitem :: "json \<Rightarrow> string \<Rightarrow> json \<Rightarrow> error + json" where
  "setitem (JObj kvs) k v = Inr (JObj (AList.update k v kvs))"
| "setitem j k v = Inl TypeError"

fun truthy :: "json \<Rightarrow> bool" where
  "truthy JNull = False"
| "truthy (JBool b) = b"
| "truthy (JNum n) = (n \<noteq> 0)"
| "truthy (JFloat d) = (case d of Finite m e \<Rightarrow> m \<noteq> 0 | _ \<Rightarrow> True)"
| "truthy (JStr s) = (s \<noteq> [])"
| "truthy (JArr xs) = (xs \<noteq> [])"
| "truthy (JObj kvs) = (kvs \<noteq> [])"

fun reversed :: "json \<Rightarrow> error + json list" where
  "reversed (JArr xs) = Inr (rev xs)"
| "reversed (JStr s) = Inr (map (\<lambda>c. JStr [c]) (rev s))"
| "reversed (JObj kvs) = Inr (map (\<lambda>kv. JStr (fst kv)) (rev kvs))"
| "reversed j = Inl TypeError"

fun extend_json :: "json \<Rightarrow> json list \<Rightarrow> error + json" where
  "extend_json (JArr xs) ys = Inr (JArr (xs @ ys))"
| "extend_json j ys = Inl AttributeError"

text \<open>\<open>Path(x)\<close> for a JSON value: a string is parsed, anything else is a \<open>TypeError\<close>.\<close>

fun Path_of :: "json \<Rightarrow> error + path" where
  "Path_of (JStr s) = Inr (Path s)"
| "Path_of j = Inl TypeError"

text \<open>
  The clock: \<open>datetime.now()\<close> and \<open>datetime.utcnow()\<close> return a date and time.
  \<open>strftime("%Y%m%d%H%M%S")\<close> prints the year as it is (the C library does not pad
  \<open>%Y\<close>) and the other fields in two digits; \<open>isoformat()\<close> prints the year in four.
\<close>

record datetime =
  year :: nat
  month :: nat
  day :: nat
  hour :: nat
  minute :: nat
  second :: nat
  microsecond :: nat

fun digits :: "nat \<Rightarrow> string" where
  "digits n = (if n < 10 then [char_of (48 + n)] else digits (n div 10) @ [char_of (48 + n mod 10)])"

declare digits.simps [simp del]

definition zfill :: "nat \<Rightarrow> nat \<Rightarrow> string" where
  "zfill w n = replicate (w - length (digits n)) (CHR ''0'') @ digits n"

definition strftime :: "datetime \<Rightarrow> string" where
  "strftime t =
     digits (year t) @ zfill 2 (month t) @ zfill 2 (day t) @
     zfill 2 (hour t) @ zfill 2 (minute t) @ zfill 2 (second t)"

definition isoformat :: "datetime \<Rightarrow> string" where
  "isoformat t =
     zfill 4 (year t) @ ''-'' @ zfill 2 (month t) @ ''-'' @ zfill 2 (day t) @ ''T'' @
     zfill 2 (hour t) @ '':'' @ zfill 2 (minute t) @ '':'' @ zfill 2 (second t) @
     (if microsecond t = 0 then [] else ''.'' @ zfill 6 (microsecond t))"

section \<open>The file system and the environment\<close>

text \<open>
  A file holds text: either the text \<open>json.dumps\<close> wrote for a value (which
  \<open>json.loads\<close> reads back as that value) or text that \<open>read_text\<close> or \<open>json.loads\<close>
  rejects. A directory is the list of its entries, in the order \<open>os.listdir\<close> reports
  them. There are no symbolic links.
\<close>

datatype content = Blob string | JsonText json

datatype node = File content | Dir "(string \<times> node) list"

text \<open>
  The calls to the system a run makes. The environment of a run gives Python's
  \<open>str.lower\<close>, what \<open>expanduser().resolve()\<close> (lines 62 and 93) returns for the source
  argument, the working directory, the readings of the clock, and \<open>refused\<close>: the calls
  the system refuses whatever the tree holds (permissions, devices, a full disk), each
  with its error.
\<close>

datatype syscall =
    Stat path | Listdir path | Mkdir path | Rename path path
  | OpenRead path | OpenWrite path | Unlink path | CopyTree path path | RmTree path

record env =
  str_lower :: "string \<Rightarrow> string"
  resolve :: "string \<Rightarrow> error + path"
  cwd :: path
  refused :: "syscall \<Rightarrow> error option"
  clock :: "nat \<Rightarrow> datetime"

text \<open>The limits of Linux on a name and on a path (the string with its final NUL).\<close>

definition NAME_MAX :: nat where
  "NAME_MAX = 255"

definition PATH_MAX :: nat where
  "PATH_MAX = 4096"

text \<open>\<open>lookup\<close> reads the tree at an absolute path without \<open>..\<close>; \<open>walk\<close> is the
  system's walk down the same path, with its errors.\<close>

fun lookup :: "node \<Rightarrow> path \<Rightarrow> node option" where
  "lookup n [] = Some n"
| "lookup (File c) (x # xs) = None"
| "lookup (Dir es) (x # xs) = (case map_of es x of None \<Rightarrow> None | Some m \<Rightarrow> lookup m xs)"

fun walk :: "node \<Rightarrow> path \<Rightarrow> error + node" where
  "walk n [] = Inr n"
| "walk (File c) (x # xs) = Inl NotADirectoryError"
| "walk (Dir es) (x # xs) =
     (if NAME_MAX < length x then Inl (OSError 36)
      else (case map_of es x of None \<Rightarrow> Inl FileNotFoundError | Some m \<Rightarrow> walk m xs))"

text \<open>
  How the system resolves a path: empty and \<open>.\<close> parts are passed over, and \<open>..\<close> steps
  from a directory to its parent. \<open>canonical\<close> gives the absolute path without \<open>..\<close> that
  a path names, or the error of a call on it.
\<close>

fun resolve_from :: "node \<Rightarrow> path \<Rightarrow> path \<Rightarrow> error + path" where
  "resolve_from f cur [] = Inr cur"
| "resolve_from f cur (x # xs) =
     (if x = [] \<or> x = ''.'' then resolve_from f cur xs
      else if x = ''..'' then
        (case walk f cur of
           Inl e \<Rightarrow> Inl e
         | Inr (File c) \<Rightarrow> Inl NotADirectoryError
         | Inr (Dir es) \<Rightarrow> resolve_from f (butlast cur) xs)
      else resolve_from f (cur @ [x]) xs)"

definition canonical :: "env \<Rightarrow> node \<Rightarrow> path \<Rightarrow> error + path" where
  "canonical E f p =
     (if list_ex (\<lambda>c. CHR 0x00 \<in> set c) p then Inl ValueError
      else if PATH_MAX \<le> Suc (length (str_path p)) then Inl (OSError 36)
      else if is_relative p then resolve_from f (cwd E) (tl p)
      else resolve_from f [] p)"

text \<open>
  \<open>os.stat\<close>, and on it \<open>Path.exists\<close> and \<open>Path.is_dir\<close> (which answer \<open>False\<close> on an
  ignored \<open>OSError\<close> and on a \<open>ValueError\<close>, and raise every other error) and
  \<open>os.path.exists\<close> and \<open>os.path.isdir\<close> (which answer \<open>False\<close> on every error).
\<close>

definition stat :: "env \<Rightarrow> node \<Rightarrow> path \<Rightarrow> error + node" where
  "stat E f p =
     (case refused E (Stat p) of
        Some e \<Rightarrow> Inl e
      | None \<Rightarrow> (case canonical E f p of Inl e \<Rightarrow> Inl e | Inr q \<Rightarrow> walk f q))"

definition exists :: "env \<Rightarrow> node \<Rightarrow> path \<Rightarrow> error + bool" where
  "exists E f p =
     (case stat E f p of
        Inr n \<Rightarrow> Inr True
      | Inl e \<Rightarrow> if ignore_error e \<or> e = ValueError then Inr False else Inl e)"

definition is_dir :: "env \<Rightarrow> node \<Rightarrow> path \<Rightarrow> error + bool" where
  "is_dir E f p =
     (case stat E f p of
        Inr (Dir es) \<Rightarrow> Inr True
      | Inr (File c) \<Rightarrow> Inr False
      | Inl e \<Rightarrow> if ignore_error e \<or> e = ValueError then Inr False else Inl e)"

definition os_path_exists :: "env \<Rightarrow> node \<Rightarrow> path \<Rightarrow> bool" where
  "os_path_exists E f p = (case stat E f p of Inr n \<Rightarrow> True | Inl e \<Rightarrow> False)"

definition os_path_isdir :: "env \<Rightarrow> node \<Rightarrow> path \<Rightarrow> bool" where
  "os_path_isdir E f p = (case stat E f p of Inr (Dir es) \<Rightarrow> True | _ \<Rightarrow> False)"

definition samefile :: "env \<Rightarrow> node \<Rightarrow> path \<Rightarrow> path \<Rightarrow> bool" where
  "samefile E f a b =
     (os_path_exists E f a \<and> os_path_exists E f b \<and> canonical E f a = canonical E f b)"

text \<open>\<open>os.listdir\<close>: the names of a directory, without \<open>.\<close> and \<open>..\<close>.\<close>

definition listdir :: "env \<Rightarrow> node \<Rightarrow> path \<Rightarrow> error + string list" where
  "listdir E f p =
     (case refused E (Listdir p) of
        Some e \<Rightarrow> Inl e
      | None \<Rightarrow>
          (case canonical E f p of
             Inl e \<Rightarrow> Inl e
           | Inr q \<Rightarrow>
               (case walk f q of
                  Inl e \<Rightarrow> Inl e
                | Inr (File c) \<Rightarrow> Inl NotADirectoryError
                | Inr (Dir es) \<Rightarrow>
                    Inr (filter (\<lambda>n. n \<noteq> [] \<and> n \<noteq> ''.'' \<and> n \<noteq> ''..'') (map fst es)))))"

text \<open>
  \<open>alter p v f\<close> sets (\<open>Some\<close>) or removes (\<open>None\<close>) the entry at \<open>p\<close>, where the
  parent of \<open>p\<close> is a directory; a new entry goes to the end of its directory.
\<close>

fun alter :: "path \<Rightarrow> node option \<Rightarrow> node \<Rightarrow> node" where
  "alter [] v n = n"
| "alter (x # xs) v (File c) = File c"
| "alter [x] v (Dir es) =
     Dir (case v of None \<Rightarrow> AList.delete x es | Some n \<Rightarrow> AList.update x n es)"
| "alter (x # y # ys) v (Dir es) =
     (case map_of es x of
        None \<Rightarrow> Dir es
      | Some m \<Rightarrow> Dir (AList.update x (alter (y # ys) v m) es))"

text \<open>
  A call that changes the tree returns the error it raises, if any, and the tree it
  leaves; a failed call of the system leaves the tree as it was, a failed function of
  the library may have changed it before it failed.
\<close>

type_synonym fsop = "node \<Rightarrow> error option \<times> node"

definition then_op :: "fsop \<Rightarrow> fsop \<Rightarrow> fsop" where
  "then_op a b f = (case a f of (Some e, f1) \<Rightarrow> (Some e, f1) | (None, f1) \<Rightarrow> b f1)"

text \<open>The place of a new entry: the directory a canonical path ends in takes the name.\<close>

definition entry_error :: "node \<Rightarrow> path \<Rightarrow> error option" where
  "entry_error f q =
     (case walk f (butlast q) of
        Inl e \<Rightarrow> Some e
      | Inr (File c) \<Rightarrow> Some NotADirectoryError
      | Inr (Dir es) \<Rightarrow> if NAME_MAX < length (last q) then Some (OSError 36) else None)"

text \<open>\<open>os.mkdir\<close>.\<close>

definition mkdir :: "env \<Rightarrow> path \<Rightarrow> fsop" where
  "mkdir E p f =
     (case refused E (Mkdir p) of
        Some e \<Rightarrow> (Some e, f)
      | None \<Rightarrow>
          (case canonical E f p of
             Inl e \<Rightarrow> (Some e, f)
           | Inr q \<Rightarrow>
               if q = [] then (Some FileExistsError, f)
               else (case entry_error f q of
                       Some e \<Rightarrow> (Some e, f)
                     | None \<Rightarrow>
                         if lookup f q \<noteq> None then (Some FileExistsError, f)
                         else (None, alter q (Some (Dir [])) f))))"

text \<open>
  \<open>Path.mkdir(exist_ok=True)\<close>: an \<open>OSError\<close> of \<open>os.mkdir\<close> other than
  \<open>FileNotFoundError\<close> is dropped when the path is a directory.
\<close>

definition mkdir_exist_ok :: "env \<Rightarrow> path \<Rightarrow> fsop" where
  "mkdir_exist_ok E p f =
     (case mkdir E p f of
        (None, f') \<Rightarrow> (None, f')
      | (Some e, f') \<Rightarrow>
          if e = FileNotFoundError \<or> \<not> is_OSError e then (Some e, f')
          else (case is_dir E f' p of
                  Inl e' \<Rightarrow> (Some e', f')
                | Inr True \<Rightarrow> (None, f')
                | Inr False \<Rightarrow> (Some e, f')))"

text \<open>\<open>Path.mkdir(parents=True, exist_ok=True)\<close>: on \<open>FileNotFoundError\<close> the parent is
  made first, then the path itself.\<close>

function mkdir_parents :: "env \<Rightarrow> path \<Rightarrow> fsop" where
  "mkdir_parents E p f =
     (case mkdir E p f of
        (None, f') \<Rightarrow> (None, f')
      | (Some e, f') \<Rightarrow>
          if e = FileNotFoundError then
            (if parent p = p then (Some e, f')
             else (case mkdir_parents E (parent p) f' of
                     (Some e', f1) \<Rightarrow> (Some e', f1)
                   | (None, f1) \<Rightarrow> mkdir_exist_ok E p f1))
          else if \<not> is_OSError e then (Some e, f')
          else (case is_dir E f' p of
                  Inl e' \<Rightarrow> (Some e', f')
                | Inr True \<Rightarrow> (None, f')
                | Inr False \<Rightarrow> (Some e, f')))"
  by pat_completeness auto
termination
proof (relation "measure (\<lambda>(E, p, f). length p)")
  fix E :: "env" and p :: path and f f' :: node
  assume "parent p \<noteq> p"
  then have "p \<noteq> []" and "parent p = butlast p" by (auto simp: parent_def)
  then show "((E, parent p, f'), (E, p, f)) \<in> measure (\<lambda>(E, p, f). length p)"
    by simp
qed simp

declare mkdir_parents.simps [simp del]

text \<open>\<open>Path.write_text\<close> (\<open>open(p, "w")\<close> creates or truncates the file) and
  \<open>Path.read_text\<close>.\<close>

definition write_text :: "env \<Rightarrow> path \<Rightarrow> content \<Rightarrow> fsop" where
  "write_text E p c f =
     (case refused E (OpenWrite p) of
        Some e \<Rightarrow> (Some e, f)
      | None \<Rightarrow>
          (case canonical E f p of
             Inl e \<Rightarrow> (Some e, f)
           | Inr q \<Rightarrow>
               if q = [] then (Some IsADirectoryError, f)
               else (case entry_error f q of
                       Some e \<Rightarrow> (Some e, f)
                     | None \<Rightarrow>
                         (case lookup f q of
                            Some (Dir es) \<Rightarrow> (Some IsADirectoryError, f)
                          | _ \<Rightarrow> (None, alter q (Some (File c)) f)))))"

definition read_text :: "env \<Rightarrow> node \<Rightarrow> path \<Rightarrow> error + content" where
  "read_text E f p =
     (case refused E (OpenRead p) of
        Some e \<Rightarrow> Inl e
      | None \<Rightarrow>
          (case canonical E f p of
             Inl e \<Rightarrow> Inl e
           | Inr q \<Rightarrow>
               (case walk f q of
                  Inl e \<Rightarrow> Inl e
                | Inr (Dir es) \<Rightarrow> Inl IsADirectoryError
                | Inr (File c) \<Rightarrow> Inr c)))"

text \<open>
  \<open>os.rename\<close>: a file replaces a file, a directory replaces an empty directory;
  renaming a path to itself does nothing; the errors are those of \<open>rename(2)\<close>.
\<close>

definition rename :: "env \<Rightarrow> path \<Rightarrow> path \<Rightarrow> fsop" where
  "rename E src dst f =
     (case refused E (Rename src dst) of
        Some e \<Rightarrow> (Some e, f)
      | None \<Rightarrow>
          (case canonical E f src of
             Inl e \<Rightarrow> (Some e, f)
           | Inr qs \<Rightarrow>
               (case canonical E f dst of
                  Inl e \<Rightarrow> (Some e, f)
                | Inr qd \<Rightarrow>
                    (case walk f qs of
                       Inl e \<Rightarrow> (Some e, f)
                     | Inr n \<Rightarrow>
                         if qs = qd then (None, f)
                         else if qs = [] then (Some (OSError 16), f)
                         else if take (length qs) qd = qs then
                           (case n of
                              Dir es \<Rightarrow> (Some (OSError 22), f)
                            | File c \<Rightarrow> (Some NotADirectoryError, f))
                         else if take (length qd) qs = qd then
                           (case n of
                              Dir es \<Rightarrow> (Some (OSError 39), f)
                            | File c \<Rightarrow> (Some IsADirectoryError, f))
                         else
                           (case entry_error f qd of
                              Some e \<Rightarrow> (Some e, f)
                            | None \<Rightarrow>
                                (case (lookup f qd, n) of
                                   (None, m) \<Rightarrow> (None, alter qd (Some n) (alter qs None f))
                                 | (Some (File c'), File c) \<Rightarrow>
                                     (None, alter qd (Some n) (alter qs None f))
                                 | (Some (File c'), Dir es) \<Rightarrow> (Some NotADirectoryError, f)
                                 | (Some (Dir es'), File c) \<Rightarrow> (Some IsADirectoryError, f)
                                 | (Some (Dir es'), Dir es) \<Rightarrow>
                                     if es' = [] then (None, alter qd (Some n) (alter qs None f))
                                     else (Some (OSError 39), f)))))))"

text \<open>\<open>os.unlink\<close>.\<close>

definition unlink :: "env \<Rightarrow> path \<Rightarrow> fsop" where
  "unlink E p f =
     (case refused E (Unlink p) of
        Some e \<Rightarrow> (Some e, f)
      | None \<Rightarrow>
          (case canonical E f p of
             Inl e \<Rightarrow> (Some e, f)
           | Inr q \<Rightarrow>
               (case walk f q of
                  Inl e \<Rightarrow> (Some e, f)
                | Inr (Dir es) \<Rightarrow> (Some IsADirectoryError, f)
                | Inr (File c) \<Rightarrow> (None, alter q None f))))"

section \<open>shutil.move\<close>

text \<open>
  The base name \<open>shutil.move\<close> takes of the source, and \<open>os.path.abspath\<close>, which
  removes \<open>..\<close> by the text of the path alone.
\<close>

definition basename :: "path \<Rightarrow> string" where
  "basename p = (if p = [] then [] else last p)"

fun lex_norm :: "path \<Rightarrow> path \<Rightarrow> path" where
  "lex_norm acc [] = acc"
| "lex_norm acc (x # xs) =
     (if x = [] \<or> x = ''.'' then lex_norm acc xs
      else if x = ''..'' then lex_norm (butlast acc) xs
      else lex_norm (acc @ [x]) xs)"

definition abspath :: "env \<Rightarrow> path \<Rightarrow> path" where
  "abspath E p = (if is_relative p then lex_norm [] (cwd E @ tl p) else lex_norm [] p)"

definition destinsrc :: "env \<Rightarrow> path \<Rightarrow> path \<Rightarrow> bool" where
  "destinsrc E src dst = (take (length (abspath E src)) (abspath E dst) = abspath E src)"

text \<open>
  \<open>shutil.copy2\<close> of a file: an existing directory as destination takes the copy under
  the base name of the source.
\<close>

definition copy2 :: "env \<Rightarrow> path \<Rightarrow> path \<Rightarrow> fsop" where
  "copy2 E src dst f =
     (let dst' = (if os_path_isdir E f dst then dst @ [basename src] else dst)
      in if samefile E f src dst' then (Some ShutilError, f)
         else (case read_text E f src of
                 Inl e \<Rightarrow> (Some e, f)
               | Inr c \<Rightarrow> write_text E dst' c f))"

text \<open>\<open>os.makedirs\<close>: the parents that are missing are made first.\<close>

function makedirs :: "env \<Rightarrow> path \<Rightarrow> fsop" where
  "makedirs E p f =
     (if parent p \<noteq> p \<and> \<not> os_path_exists E f (parent p) then
        (case makedirs E (parent p) f of
           (None, f1) \<Rightarrow> mkdir E p f1
         | (Some e, f1) \<Rightarrow> if e = FileExistsError then mkdir E p f1 else (Some e, f1))
      else mkdir E p f)"
  by pat_completeness auto
termination
proof (relation "measure (\<lambda>(E, p, f). length p)")
  fix E :: "env" and p :: path and f :: node
  assume "parent p \<noteq> p \<and> \<not> os_path_exists E f (parent p)"
  then have "p \<noteq> []" and "parent p = butlast p" by (auto simp: parent_def)
  then show "((E, parent p, f), (E, p, f)) \<in> measure (\<lambda>(E, p, f). length p)"
    by simp
qed simp

declare makedirs.simps [simp del]

text \<open>
  \<open>shutil.copytree\<close> and \<open>shutil.rmtree\<close> of a directory. The copy of the entries, and
  the removal of the tree, are each taken as one step that the system allows or refuses.
\<close>

definition copytree :: "env \<Rightarrow> path \<Rightarrow> path \<Rightarrow> fsop" where
  "copytree E src dst f =
     (case listdir E f src of
        Inl e \<Rightarrow> (Some e, f)
      | Inr names \<Rightarrow>
          (case stat E f src of
             Inl e \<Rightarrow> (Some e, f)
           | Inr (File c) \<Rightarrow> (Some NotADirectoryError, f)
           | Inr (Dir es) \<Rightarrow>
               (case makedirs E dst f of
                  (Some e, f1) \<Rightarrow> (Some e, f1)
                | (None, f1) \<Rightarrow>
                    (case refused E (CopyTree src dst) of
                       Some e \<Rightarrow> (Some e, f1)
                     | None \<Rightarrow>
                         (case canonical E f1 dst of
                            Inl e \<Rightarrow> (Some e, f1)
                          | Inr qd \<Rightarrow> (None, alter qd (Some (Dir es)) f1))))))"

definition rmtree :: "env \<Rightarrow> path \<Rightarrow> fsop" where
  "rmtree E p f =
     (case refused E (RmTree p) of
        Some e \<Rightarrow> (Some e, f)
      | None \<Rightarrow>
          (case canonical E f p of
             Inl e \<Rightarrow> (Some e, f)
           | Inr q \<Rightarrow>
               (case walk f q of
                  Inl e \<Rightarrow> (Some e, f)
                | Inr (File c) \<Rightarrow> (Some NotADirectoryError, f)
                | Inr (Dir es) \<Rightarrow>
                    if q = [] then (Some (OSError 16), f) else (None, alter q None f))))"

text \<open>
  \<open>shutil.move\<close>. An existing directory as destination takes the source inside it,
  under the source's base name, which must be free there. \<open>os.rename\<close> is tried first;
  on an \<open>OSError\<close> a directory is copied and then removed (unless the destination lies
  inside it), a file is copied and then unlinked.
\<close>

definition move_to :: "env \<Rightarrow> path \<Rightarrow> path \<Rightarrow> path \<Rightarrow> fsop" where
  "move_to E src dst real_dst f =
     (case rename E src real_dst f of
        (None, f1) \<Rightarrow> (None, f1)
      | (Some e, f1) \<Rightarrow>
          if \<not> is_OSError e then (Some e, f1)
          else if os_path_isdir E f1 src then
            (if destinsrc E src dst then (Some ShutilError, f1)
             else then_op (copytree E src real_dst) (rmtree E src) f1)
          else then_op (copy2 E src real_dst) (unlink E src) f1)"

definition shutil_move :: "env \<Rightarrow> path \<Rightarrow> path \<Rightarrow> fsop" where
  "shutil_move E src dst f =
     (if os_path_isdir E f dst then
        (if samefile E f src dst then rename E src dst f
         else (let real_dst = dst @ [basename src]
               in if os_path_exists E f real_dst then (Some ShutilError, f)
                  else move_to E src dst real_dst f))
      else move_to E src dst dst f)"

section \<open>The program state\<close>

text \<open>
  The state a run works on: the file system, what has been printed, and how many times
  the clock has been read (the \<open>k\<close>-th reading returns \<open>clock E k\<close>).
\<close>

datatype msg =
    SourceMissing path
  | Announce bool string string
  | NothingToUndo
  | UndoMsg path path
  | Skipped path
  | UndoComplete

record state =
  fs :: node
  out :: "msg list"
  tick :: nat

definition say :: "msg \<Rightarrow> state \<Rightarrow> state" where
  "say m s = s\<lparr>out := out s @ [m]\<rparr>"

definition now :: "env \<Rightarrow> state \<Rightarrow> datetime \<times> state" where
  "now E s = (clock E (tick s), s\<lparr>tick := Suc (tick s)\<rparr>)"

text \<open>A call that changes the tree, in a state.\<close>

definition on_fs :: "fsop \<Rightarrow> state \<Rightarrow> (error + unit) \<times> state" where
  "on_fs op s =
     (case op (fs s) of
        (Some e, f) \<Rightarrow> (Inl e, s\<lparr>fs := f\<rparr>)
      | (None, f) \<Rightarrow> (Inr (), s\<lparr>fs := f\<rparr>))"

section \<open>The log, folders and the collision-safe move\<close>

text \<open>\<open>load_log\<close> (lines 36-40) and \<open>save_log\<close> (lines 42-44).\<close>

definition load_log :: "env \<Rightarrow> path \<Rightarrow> state \<Rightarrow> error + json" where
  "load_log E target_dir s =
     (let p = target_dir @ [LOG_FILE]
      in case exists E (fs s) p of
           Inl e \<Rightarrow> Inl e
         | Inr True \<Rightarrow>
             (case read_text E (fs s) p of
                Inl e \<Rightarrow> Inl e
              | Inr (Blob b) \<Rightarrow> Inl ValueError
              | Inr (JsonText j) \<Rightarrow> Inr j)
         | Inr False \<Rightarrow> Inr (JObj [(''moves'', JArr [])]))"

definition save_log :: "env \<Rightarrow> path \<Rightarrow> json \<Rightarrow> state \<Rightarrow> (error + unit) \<times> state" where
  "save_log E target_dir data s =
     (let p = target_dir @ [LOG_FILE] in on_fs (write_text E p (JsonText data)) s)"

text \<open>\<open>ensure_folder\<close> (lines 46-49).\<close>

definition ensure_folder :: "env \<Rightarrow> path \<Rightarrow> string \<Rightarrow> state \<Rightarrow> (error + path) \<times> state" where
  "ensure_folder E pth nm s =
     (let folder = pth @ [nm]
      in case on_fs (mkdir_exist_ok E folder) s of
           (Inl e, s') \<Rightarrow> (Inl e, s')
         | (Inr u, s') \<Rightarrow> (Inr folder, s'))"

text \<open>\<open>safe_move\<close> (lines 51-59).\<close>

definition safe_move :: "env \<Rightarrow> path \<Rightarrow> path \<Rightarrow> state \<Rightarrow> (error + path) \<times> state" where
  "safe_move E src dest s =
     (case exists E (fs s) dest of
        Inl e \<Rightarrow> (Inl e, s)
      | Inr True \<Rightarrow>
          (let stm = stem dest; suf = suffix dest; (t, s1) = now E s; ts = strftime t
           in case with_name dest (stm @ ''_'' @ ts @ suf) of
                Inl e \<Rightarrow> (Inl e, s1)
              | Inr dest' \<Rightarrow>
                  (case on_fs (shutil_move E src dest') s1 of
                     (Inl e, s2) \<Rightarrow> (Inl e, s2)
                   | (Inr u, s2) \<Rightarrow> (Inr dest', s2)))
      | Inr False \<Rightarrow>
          (case on_fs (shutil_move E src dest) s of
             (Inl e, s2) \<Rightarrow> (Inl e, s2)
           | (Inr u, s2) \<Rightarrow> (Inr dest, s2)))"

section \<open>organize\<close>

definition move_record :: "path \<Rightarrow> path \<Rightarrow> json" where
  "move_record src dst = JObj [(''from'', JStr (str_path src)), (''to'', JStr (str_path dst))]"

text \<open>The loop of lines 68-80 over the names \<open>iterdir\<close> listed, with \<open>moved\<close> so far.\<close>

fun organize_loop ::
  "env \<Rightarrow> path \<Rightarrow> bool \<Rightarrow> string list \<Rightarrow> json list \<Rightarrow> state \<Rightarrow> (error + json list) \<times> state"
where
  "organize_loop E source dry_run [] moved s = (Inr moved, s)"
| "organize_loop E source dry_run (nm # rest) moved s =
     (let item = source @ [nm]
      in if name item = LOG_FILE then organize_loop E source dry_run rest moved s
         else
           (case is_dir E (fs s) item of
              Inl e \<Rightarrow> (Inl e, s)
            | Inr True \<Rightarrow> organize_loop E source dry_run rest moved s
            | Inr False \<Rightarrow>
                (let ext = suffix item; cat = category_for (str_lower E) ext
                 in case ensure_folder E source cat s of
                      (Inl e, s1) \<Rightarrow> (Inl e, s1)
                    | (Inr dest_folder, s1) \<Rightarrow>
                        (let dest = dest_folder @ [name item];
                             s2 = say (Announce dry_run (name item) cat) s1
                         in if \<not> dry_run then
                              (case safe_move E item dest s2 of
                                 (Inl e, s3) \<Rightarrow> (Inl e, s3)
                               | (Inr newpath, s3) \<Rightarrow>
                                   organize_loop E source dry_run rest
                                     (moved @ [move_record item newpath]) s3)
                            else organize_loop E source dry_run rest moved s2))))"

text \<open>Lines 81-89: the log is extended and saved, the report written.\<close>

definition report :: "json list \<Rightarrow> string \<Rightarrow> json" where
  "report moved last_run =
     JObj [(''moved_count'', JNum (int (length moved))), (''moved'', JArr moved),
           (''timestamp'', JStr last_run)]"

definition record_moves ::
  "env \<Rightarrow> path \<Rightarrow> json \<Rightarrow> json list \<Rightarrow> state \<Rightarrow> (error + bool) \<times> state" where
  "record_moves E source log moved s =
     (case getitem log ''moves'' of
        Inl e \<Rightarrow> (Inl e, s)
      | Inr mvs \<Rightarrow>
          (case extend_json mvs moved of
             Inl e \<Rightarrow> (Inl e, s)
           | Inr mvs' \<Rightarrow>
               (case setitem log ''moves'' mvs' of
                  Inl e \<Rightarrow> (Inl e, s)
                | Inr log1 \<Rightarrow>
                    (let (t, s1) = now E s; last_run = isoformat t @ ''Z''
                     in case setitem log1 ''last_run'' (JStr last_run) of
                          Inl e \<Rightarrow> (Inl e, s1)
                        | Inr log2 \<Rightarrow>
                            (case save_log E source log2 s1 of
                               (Inl e, s2) \<Rightarrow> (Inl e, s2)
                             | (Inr u, s2) \<Rightarrow>
                                 (case on_fs (write_text E (source @ [''report.json''])
                                               (JsonText (report moved last_run))) s2 of
                                    (Inl e, s3) \<Rightarrow> (Inl e, s3)
                                  | (Inr u', s3) \<Rightarrow> (Inr True, s3)))))))"

text \<open>
  \<open>organize\<close> (lines 61-90). \<open>arg\<close> is the source as passed; line 62 resolves it.
\<close>

definition organize :: "env \<Rightarrow> string \<Rightarrow> bool \<Rightarrow> state \<Rightarrow> (error + bool) \<times> state" where
  "organize E arg dry_run s =
     (case resolve E arg of
        Inl e \<Rightarrow> (Inl e, s)
      | Inr source \<Rightarrow>
          (case exists E (fs s) source of
             Inl e \<Rightarrow> (Inl e, s)
           | Inr ex \<Rightarrow>
               (case (if ex then is_dir E (fs s) source else Inr False) of
                  Inl e \<Rightarrow> (Inl e, s)
                | Inr isd \<Rightarrow>
                    if \<not> ex \<or> \<not> isd then (Inr False, say (SourceMissing source) s)
                    else
                      (case load_log E source s of
                         Inl e \<Rightarrow> (Inl e, s)
                       | Inr log \<Rightarrow>
                           (case listdir E (fs s) source of
                              Inl e \<Rightarrow> (Inl e, s)
                            | Inr names \<Rightarrow>
                                (case organize_loop E source dry_run names [] s of
                                   (Inl e, s1) \<Rightarrow> (Inl e, s1)
                                 | (Inr moved, s1) \<Rightarrow>
                                     if \<not> dry_run \<and> moved \<noteq> [] then
                                       record_moves E source log moved s1
                                     else (Inr True, s1)))))))"

section \<open>undo\<close>

text \<open>The loop of lines 99-107 over the reversed moves.\<close>

fun undo_loop :: "env \<Rightarrow> json list \<Rightarrow> state \<Rightarrow> (error + unit) \<times> state" where
  "undo_loop E [] s = (Inr (), s)"
| "undo_loop E (mv # rest) s =
     (case getitem mv ''to'' of
        Inl e \<Rightarrow> (Inl e, s)
      | Inr t \<Rightarrow>
          (case Path_of t of
             Inl e \<Rightarrow> (Inl e, s)
           | Inr src \<Rightarrow>
               (case getitem mv ''from'' of
                  Inl e \<Rightarrow> (Inl e, s)
                | Inr fr \<Rightarrow>
                    (case Path_of fr of
                       Inl e \<Rightarrow> (Inl e, s)
                     | Inr dst \<Rightarrow>
                         (case exists E (fs s) src of
                            Inl e \<Rightarrow> (Inl e, s)
                          | Inr True \<Rightarrow>
                              (let s1 = say (UndoMsg src dst) s
                               in case on_fs (mkdir_parents E (parent dst)) s1 of
                                    (Inl e, s2) \<Rightarrow> (Inl e, s2)
                                  | (Inr u, s2) \<Rightarrow>
                                      (case safe_move E src dst s2 of
                                         (Inl e, s3) \<Rightarrow> (Inl e, s3)
                                       | (Inr p, s3) \<Rightarrow> undo_loop E rest s3))
                          | Inr False \<Rightarrow> undo_loop E rest (say (Skipped src) s))))))"

text \<open>\<open>undo\<close> (lines 92-110). \<open>arg\<close> is the source as passed; line 93 resolves it.\<close>

definition undo :: "env \<Rightarrow> string \<Rightarrow> state \<Rightarrow> (error + unit) \<times> state" where
  "undo E arg s =
     (case resolve E arg of
        Inl e \<Rightarrow> (Inl e, s)
      | Inr source \<Rightarrow>
          (case load_log E source s of
             Inl e \<Rightarrow> (Inl e, s)
           | Inr log \<Rightarrow>
               (case dict_get log ''moves'' of
                  Inl e \<Rightarrow> (Inl e, s)
                | Inr mvs \<Rightarrow>
                    if \<not> truthy mvs then (Inr (), say NothingToUndo s)
                    else
                      (case getitem log ''moves'' of
                         Inl e \<Rightarrow> (Inl e, s)
                       | Inr mvs' \<Rightarrow>
                           (case reversed mvs' of
                              Inl e \<Rightarrow> (Inl e, s)
                            | Inr rs \<Rightarrow>
                                (case undo_loop E rs s of
                                   (Inl e, s1) \<Rightarrow> (Inl e, s1)
                                 | (Inr u, s1) \<Rightarrow>
                                     (case on_fs (write_text E (source @ [LOG_FILE])
                                                   (JsonText (JObj [(''moves'', JArr [])]))) s1 of
                                        (Inl e, s2) \<Rightarrow> (Inl e, s2)
                                      | (Inr u', s2) \<Rightarrow> (Inr (), say UndoComplete s2))))))))"

section \<open>Example states\<close>

text \<open>
  An environment where nothing is refused: lowering as on ASCII text, every source
  argument an absolute path that resolves to itself, the working directory the root, and
  a clock that stands still.
\<close>

definition t0 :: datetime where
  "t0 = \<lparr>year = 2024, month = 3, day = 7, hour = 9, minute = 5, second = 2, microsecond = 120\<rparr>"

definition env0 :: env where
  "env0 = \<lparr>str_lower = ascii_lower, resolve = (\<lambda>a. Inr (Path a)), cwd = [],
           refused = (\<lambda>c. None), clock = (\<lambda>k. t0)\<rparr>"

definition desktop :: path where
  "desktop = [''home'', ''u'', ''Desktop'']"

definition home_fs :: "(string \<times> node) list \<Rightarrow> node" where
  "home_fs ents = Dir [(''home'', Dir [(''u'', Dir [(''Desktop'', Dir ents)])])]"

definition start :: "node \<Rightarrow> state" where
  "start f = \<lparr>fs = f, out = [], tick = 0\<rparr>"

definition one_png :: node where
  "one_png = home_fs [(''a.png'', File (Blob ''A''))]"


text \<open>
  A lowering that goes beyond ASCII: it also lowers the Kelvin sign (U+212A, the bytes
  E2 84 AA) to \<open>k\<close>, as \<open>str.lower\<close> does.
\<close>

fun kelvin_lower :: "string \<Rightarrow> string" where
  "kelvin_lower (a # b # c # s) =
     (if a = CHR 0xE2 \<and> b = CHR 0x84 \<and> c = CHR 0xAA then CHR ''k'' # kelvin_lower s
      else lower_char a # kelvin_lower (b # c # s))"
| "kelvin_lower s = map lower_char s"

section \<open>Auxiliary notions\<close>

text \<open>
  A plain path is absolute and has no empty part, no \<open>.\<close> and no \<open>..\<close>: what
  \<open>Path.resolve()\<close> returns, and what comes of it by joining entry names.
\<close>

definition plain :: "path \<Rightarrow> bool" where
  "plain p = list_all (\<lambda>c. c \<noteq> [] \<and> c \<noteq> ''.'' \<and> c \<noteq> ''..'') p"

text \<open>Two paths are apart when neither leads to the other.\<close>

definition apart :: "path \<Rightarrow> path \<Rightarrow> bool" where
  "apart p q = (take (length p) q \<noteq> p \<and> take (length q) p \<noteq> q)"

definition dir_at :: "node \<Rightarrow> path \<Rightarrow> bool" where
  "dir_at f p = (case lookup f p of Some (Dir es) \<Rightarrow> True | _ \<Rightarrow> False)"

text \<open>A call keeps a path when it leaves what the tree holds there as it was, whatever its
  outcome.\<close>

definition keeps :: "path \<Rightarrow> fsop \<Rightarrow> bool" where
  "keeps q op = (\<forall>f. lookup (snd (op f)) q = lookup f q)"


section \<open>Lookups after a change of the tree\<close>

lemma map_of_alist_update: "map_of (AList.update k v al) k' = (if k' = k then Some v else map_of al k')"
  by (simp add: update_conv')

lemma map_of_alist_delete: "map_of (AList.delete k al) k' = (if k' = k then None else map_of al k')"
  by (simp add: delete_conv')

lemma lookup_alter_indep:
  "take (length p) q \<noteq> p \<Longrightarrow> take (length q) p \<noteq> q \<Longrightarrow> lookup (alter p v f) q = lookup f q"
proof (induction p v f arbitrary: q rule: alter.induct)
  case (1 v n)
  then show ?case by simp
next
  case (2 x xs v c)
  then show ?case by simp
next
  case (3 x v es)
  then show ?case
    by (cases q) (auto simp: map_of_alist_update map_of_alist_delete split: option.splits)
next
  case (4 x y ys v es)
  show ?case
  proof (cases q)
    case Nil
    with 4 show ?thesis by simp
  next
    case (Cons z zs)
    show ?thesis
    proof (cases "map_of es x")
      case None
      then show ?thesis by simp
    next
      case (Some m)
      show ?thesis
      proof (cases "z = x")
        case True
        with 4 Cons Some show ?thesis by (simp add: map_of_alist_update)
      next
        case False
        with Cons Some show ?thesis by (simp add: map_of_alist_update)
      qed
    qed
  qed
qed

lemma lookup_alter_apart: "apart p q \<Longrightarrow> lookup (alter p v f) q = lookup f q"
  by (simp add: apart_def lookup_alter_indep)

lemma lookup_alter_below:
  "p \<noteq> [] \<Longrightarrow> dir_at f (butlast p) \<Longrightarrow>
   lookup (alter p v f) (p @ r) = (case v of None \<Rightarrow> None | Some n \<Rightarrow> lookup n r)"
proof (induction p v f rule: alter.induct)
  case (1 v n)
  then show ?case by simp
next
  case (2 x xs v c)
  then show ?case by (cases xs) (auto simp: dir_at_def)
next
  case (3 x v es)
  then show ?case by (auto simp: map_of_alist_update map_of_alist_delete split: option.splits)
next
  case (4 x y ys v es)
  then show ?case
    by (cases "map_of es x") (auto simp: dir_at_def map_of_alist_update split: option.splits)
qed


lemma lookup_append:
  "lookup f (p @ r) = (case lookup f p of None \<Rightarrow> None | Some n \<Rightarrow> lookup n r)"
proof (induction p arbitrary: f)
  case Nil
  then show ?case by simp
next
  case (Cons a p)
  then show ?case by (cases f) (auto split: option.splits)
qed

lemma lookup_leaf_below:
  assumes "r \<noteq> []" and "lookup f p = None \<or> (\<exists>c. lookup f p = Some (File c)) \<or> lookup f p = Some (Dir [])"
  shows "lookup f (p @ r) = None"
proof -
  from assms(1) obtain x xs where r: "r = x # xs" by (cases r) auto
  from assms(2) show ?thesis by (auto simp: lookup_append r)
qed

lemma walk_lookup: "walk f p = Inr n \<Longrightarrow> lookup f p = Some n"
proof (induction f p rule: walk.induct)
  case (1 n)
  then show ?case by simp
next
  case (2 c x xs)
  then show ?case by simp
next
  case (3 es x xs)
  then show ?case by (auto split: if_splits option.splits)
qed


lemma apart_sym: "apart p q \<Longrightarrow> apart q p"
  by (simp add: apart_def)


section \<open>Plain paths name themselves\<close>

lemma resolve_from_plain: "plain p \<Longrightarrow> resolve_from f cur p = Inr (cur @ p)"
  by (induction p arbitrary: cur) (auto simp: plain_def)

lemma plain_not_relative: "plain p \<Longrightarrow> \<not> is_relative p"
  by (cases p) (auto simp: plain_def is_relative_def)

lemma canonical_plain: "plain p \<Longrightarrow> canonical E f p = Inr q \<Longrightarrow> q = p"
  by (auto simp: canonical_def resolve_from_plain plain_not_relative split: if_splits)


lemma plain_butlast: "plain p \<Longrightarrow> plain (butlast p)"
  by (auto simp: plain_def list_all_iff dest: in_set_butlastD)


lemma plain_parent: "plain p \<Longrightarrow> plain (parent p)"
  by (auto simp: parent_def plain_butlast)

section \<open>What a call leaves as it was\<close>

lemma keepsI: "(\<And>f r f'. op f = (r, f') \<Longrightarrow> lookup f' q = lookup f q) \<Longrightarrow> keeps q op"
  unfolding keeps_def by (metis prod.collapse)

lemma keepsD: "keeps q op \<Longrightarrow> op f = (r, f') \<Longrightarrow> lookup f' q = lookup f q"
  unfolding keeps_def by (metis snd_conv)


lemma entry_error_dir: "entry_error f q = None \<Longrightarrow> dir_at f (butlast q)"
  by (auto simp: entry_error_def dir_at_def split: sum.splits node.splits if_splits
      dest: walk_lookup)

lemma not_prefix_cases:
  assumes "take (length q) p \<noteq> q"
  obtains (below) r where "q = p @ r" "r \<noteq> []" | (apart) "apart p q"
proof (cases "take (length p) q = p")
  case True
  then have q: "q = p @ drop (length p) q" by (metis append_take_drop_id)
  have "drop (length p) q \<noteq> []"
  proof
    assume "drop (length p) q = []"
    with q have "q = p" by simp
    with assms show False by simp
  qed
  with q below show ?thesis by blast
next
  case False
  with assms apart show ?thesis by (simp add: apart_def)
qed

text \<open>A new leaf (an empty directory or a file) at \<open>p\<close>, where there was none or a file.\<close>

lemma lookup_new_leaf:
  assumes "take (length q) p \<noteq> q" and "p \<noteq> []" and "dir_at f (butlast p)"
    and "lookup f p = None \<or> (\<exists>c. lookup f p = Some (File c))"
    and "n = Dir [] \<or> (\<exists>c. n = File c)"
  shows "lookup (alter p (Some n) f) q = lookup f q"
  using assms(1)
proof (cases rule: not_prefix_cases)
  case (below r)
  from below(2) obtain x xs where r: "r = x # xs" by (cases r) auto
  have "lookup (alter p (Some n) f) (p @ r) = lookup n r"
    using lookup_alter_below [OF assms(2,3), of "Some n" r] by simp
  also have "\<dots> = None" using assms(5) r by auto
  finally have "lookup (alter p (Some n) f) q = None" using below(1) by simp
  moreover have "lookup f q = None"
    using lookup_leaf_below [OF below(2), of f p] assms(4) below(1) by auto
  ultimately show ?thesis by simp
next
  case apart
  then show ?thesis by (rule lookup_alter_apart)
qed

lemma mkdir_keeps:
  assumes "plain p" and "take (length q) p \<noteq> q"
  shows "keeps q (mkdir E p)"
proof (rule keepsI)
  fix f r f'
  assume m: "mkdir E p f = (r, f')"
  show "lookup f' q = lookup f q"
  proof (cases "f' = f")
    case True
    then show ?thesis by simp
  next
    case False
    with m obtain p' where c: "canonical E f p = Inr p'" and ne: "p' \<noteq> []"
      and ee: "entry_error f p' = None" and free: "lookup f p' = None"
      and f': "f' = alter p' (Some (Dir [])) f"
      by (auto simp: mkdir_def split: option.splits sum.splits if_splits)
    from canonical_plain [OF assms(1) c] have "p' = p" .
    with ne ee free f' lookup_new_leaf [OF assms(2), of f "Dir []"] entry_error_dir
    show ?thesis by auto
  qed
qed

lemma mkdir_exist_ok_keeps:
  assumes "plain p" and "take (length q) p \<noteq> q"
  shows "keeps q (mkdir_exist_ok E p)"
proof (rule keepsI)
  fix f r f'
  assume m: "mkdir_exist_ok E p f = (r, f')"
  obtain r0 f0 where m0: "mkdir E p f = (r0, f0)" by fastforce
  with m have "f' = f0"
    by (auto simp: mkdir_exist_ok_def split: option.splits sum.splits if_splits bool.splits)
  with keepsD [OF mkdir_keeps [OF assms] m0] show "lookup f' q = lookup f q" by simp
qed

lemma take_butlast_neq:
  assumes "take (length q) p \<noteq> q"
  shows "take (length q) (butlast p) \<noteq> q"
proof
  assume h: "take (length q) (butlast p) = q"
  from arg_cong [OF h, of length] have "length q \<le> length (butlast p)" by simp
  then have "take (length q) (butlast p) = take (length q) p"
    by (cases p rule: rev_cases) simp_all
  with h assms show False by simp
qed

lemma mkdir_parents_keeps:
  "plain p \<Longrightarrow> take (length q) p \<noteq> q \<Longrightarrow> mkdir_parents E p f = (r, f') \<Longrightarrow>
   lookup f' q = lookup f q"
proof (induction E p f arbitrary: r f' rule: mkdir_parents.induct)
  case (1 E p f)
  obtain r0 f0 where m0: "mkdir E p f = (r0, f0)" by fastforce
  from keepsD [OF mkdir_keeps [OF "1.prems"(1,2)] m0]
  have k0: "lookup f0 q = lookup f q" .
  show ?case
  proof (cases "r0 = Some FileNotFoundError \<and> parent p \<noteq> p")
    case False
    with "1.prems"(3) m0 have "f' = f0"
      by (subst (asm) mkdir_parents.simps)
         (auto split: option.splits sum.splits if_splits bool.splits)
    with k0 show ?thesis by simp
  next
    case True
    obtain r1 f1 where m1: "mkdir_parents E (parent p) f0 = (r1, f1)" by fastforce
    have pp: "plain (parent p)" using "1.prems"(1) by (rule plain_parent)
    have np: "take (length q) (parent p) \<noteq> q"
      using True take_butlast_neq [OF "1.prems"(2)] by (auto simp: parent_def)
    from True m0 have e: "(Some FileNotFoundError, f0) = mkdir E p f"
      and pne: "parent p \<noteq> p" by simp_all
    from "1.IH" [OF e refl refl pne pp np m1] have k1: "lookup f1 q = lookup f0 q" .
    show ?thesis
    proof (cases r1)
      case (Some e1)
      with "1.prems"(3) m0 True m1 have "f' = f1"
        by (subst (asm) mkdir_parents.simps) auto
      with k0 k1 show ?thesis by simp
    next
      case None
      with "1.prems"(3) m0 True m1 have "mkdir_exist_ok E p f1 = (r, f')"
        by (subst (asm) mkdir_parents.simps) auto
      from keepsD [OF mkdir_exist_ok_keeps [OF "1.prems"(1,2)] this] k0 k1
      show ?thesis by simp
    qed
  qed
qed










section \<open>The classifier\<close>

lemma first_category_none:
  "\<forall>(cat, exts) \<in> set tbl. e \<notin> set exts \<Longrightarrow> first_category tbl e = ''Others''"
  by (induction tbl e rule: first_category.induct) auto

lemma table_rows:
  "list_all (\<lambda>(cat, exts). list_all (\<lambda>e. is_ascii e \<and> is_ascii (ascii_upper e) \<and>
      ascii_lower e = e \<and> ascii_lower (ascii_upper e) = e \<and>
      first_category CATEGORIES e = cat) exts) CATEGORIES"
  by code_simp

lemma table_entry:
  assumes "(cat, exts) \<in> set CATEGORIES" and "e \<in> set exts"
  shows "is_ascii e" and "is_ascii (ascii_upper e)" and "ascii_lower e = e"
    and "ascii_lower (ascii_upper e) = e" and "first_category CATEGORIES e = cat"
  using assms table_rows by (auto simp: list_all_iff)

lemma kelvin_lower_ascii: "is_ascii s \<Longrightarrow> kelvin_lower s = ascii_lower s"
  by (induction s rule: kelvin_lower.induct) (auto simp: is_ascii_def ascii_lower_def)

text \<open>
  C6. \<open>category_for\<close> is a function of every string, with no error case, and it looks up
  the lowered string: two strings with the same lowering get the same answer. Let
  \<open>lw\<close> and \<open>up\<close> be \<open>str.lower\<close> and \<open>str.upper\<close>, of which only their action on ASCII
  strings is used. For every extension \<open>e\<close> in the set of a category, \<open>category_for\<close>
  returns that category for \<open>e\<close>, for \<open>e.upper()\<close> and for every string that lowers to
  \<open>e\<close>, in whatever letter case and script; for a string whose lowering is in no set it
  returns \<open>"Others"\<close>.
\<close>

theorem category_for_contract:
  assumes "on_ascii lw ascii_lower" and "on_ascii up ascii_upper"
  shows "(\<forall>cat exts e. (cat, exts) \<in> set CATEGORIES \<longrightarrow> e \<in> set exts \<longrightarrow>
      category_for lw e = cat \<and> category_for lw (up e) = cat \<and>
      (\<forall>e'. lw e' = e \<longrightarrow> category_for lw e' = cat)) \<and>
   (\<forall>e. (\<forall>(cat, exts) \<in> set CATEGORIES. lw e \<notin> set exts) \<longrightarrow>
      category_for lw e = ''Others'') \<and>
   (\<forall>e e'. lw e = lw e' \<longrightarrow> category_for lw e = category_for lw e')"
proof (intro conjI allI impI)
  fix cat exts e
  assume row: "(cat, exts) \<in> set CATEGORIES" and mem: "e \<in> set exts"
  note t = table_entry [OF row mem]
  from assms(1) t(1,3) have le: "lw e = e" by (simp add: on_ascii_def)
  from assms(2) t(1) have "up e = ascii_upper e" by (simp add: on_ascii_def)
  with assms(1) t(2,4) have lu: "lw (up e) = e" by (simp add: on_ascii_def)
  show "category_for lw e = cat" using le t(5) by (simp add: category_for_def)
  show "category_for lw (up e) = cat" using lu t(5) by (simp add: category_for_def)
  fix e'
  assume "lw e' = e"
  then show "category_for lw e' = cat" using t(5) by (simp add: category_for_def)
next
  fix e
  assume "\<forall>(cat, exts) \<in> set CATEGORIES. lw e \<notin> set exts"
  then show "category_for lw e = ''Others''"
    unfolding category_for_def by (rule first_category_none)
next
  fix e e'
  assume "lw e = lw e'"
  then show "category_for lw e = category_for lw e'" by (simp add: category_for_def)
qed

theorem category_for_contract_witness:
  "on_ascii kelvin_lower ascii_lower \<and> on_ascii ascii_upper ascii_upper \<and>
   category_for kelvin_lower ''.png'' = ''Images'' \<and>
   category_for kelvin_lower ''.PNG'' = ''Images'' \<and>
   category_for kelvin_lower ''.Png'' = ''Images'' \<and>
   category_for kelvin_lower [CHR ''.'', CHR ''m'', CHR 0xE2, CHR 0x84, CHR 0xAA, CHR ''v''] = ''Video'' \<and>
   category_for kelvin_lower ''.txs'' = ''Others''"
proof -
  have a: "on_ascii kelvin_lower ascii_lower" "on_ascii ascii_upper ascii_upper"
    by (simp_all add: on_ascii_def kelvin_lower_ascii)
  have img: "(''Images'', [''.png'', ''.jpg'', ''.jpeg'', ''.gif'', ''.bmp'', ''.svg'', ''.webp'']) \<in> set CATEGORIES"
    by (simp add: CATEGORIES_def)
  have vid: "(''Video'', [''.mp4'', ''.mkv'', ''.mov'', ''.avi'']) \<in> set CATEGORIES"
    by (simp add: CATEGORIES_def)
  have mem: "''.png'' \<in> set [''.png'', ''.jpg'', ''.jpeg'', ''.gif'', ''.bmp'', ''.svg'', ''.webp'']"
    "''.mkv'' \<in> set [''.mp4'', ''.mkv'', ''.mov'', ''.avi'']"
    by simp_all
  have up: "ascii_upper ''.png'' = ''.PNG''" by code_simp
  have lo: "kelvin_lower ''.Png'' = ''.png''" by code_simp
  have kv: "kelvin_lower [CHR ''.'', CHR ''m'', CHR 0xE2, CHR 0x84, CHR 0xAA, CHR ''v''] = ''.mkv''"
    by code_simp
  have none: "\<forall>(cat, exts) \<in> set CATEGORIES. kelvin_lower ''.txs'' \<notin> set exts" by code_simp
  note c = category_for_contract [OF a]
  note p = c [THEN conjunct1, rule_format, OF img mem(1)]
  note v = c [THEN conjunct1, rule_format, OF vid mem(2)]
  have 1: "category_for kelvin_lower ''.png'' = ''Images''" using p by simp
  have 2: "category_for kelvin_lower ''.PNG'' = ''Images''" using p up by simp
  have 3: "category_for kelvin_lower ''.Png'' = ''Images''"
    using p [THEN conjunct2, THEN conjunct2, rule_format, OF lo] .
  have 4: "category_for kelvin_lower [CHR ''.'', CHR ''m'', CHR 0xE2, CHR 0x84, CHR 0xAA, CHR ''v''] = ''Video''"
    using v [THEN conjunct2, THEN conjunct2, rule_format, OF kv] .
  have 5: "category_for kelvin_lower ''.txs'' = ''Others''"
    using c [THEN conjunct2, THEN conjunct1, THEN spec, of "''.txs''"] none by blast
  from a 1 2 3 4 5 show ?thesis by (intro conjI)
qed

section \<open>Invalid source\<close>




section \<open>Undo of an empty log\<close>

lemma load_log_Inr:
  "load_log E source s = Inr log \<longleftrightarrow>
     (exists E (fs s) (source @ [LOG_FILE]) = Inr False \<and> log = JObj [(''moves'', JArr [])]) \<or>
     (exists E (fs s) (source @ [LOG_FILE]) = Inr True \<and>
      read_text E (fs s) (source @ [LOG_FILE]) = Inr (JsonText log))"
  by (auto simp: load_log_def Let_def split: sum.splits bool.splits content.splits)

text \<open>
  C9. Line 93 resolves the source. When the log file is absent (\<open>exists()\<close> answers
  \<open>False\<close>), or is read as a JSON object whose \<open>moves\<close> is missing or falsy, in particular
  the empty list, \<open>undo\<close> prints that there are no recorded moves and returns; the file
  system and the clock are as they were, so the log file is neither written nor
  cleared. When line 93 raises, or \<open>load_log\<close> raises (the existence check on an error
  of \<open>stat\<close> other than \<open>ENOENT\<close>, \<open>ENOTDIR\<close>, \<open>EBADF\<close> and \<open>ELOOP\<close>, or the reading of the
  file), the exception leaves \<open>undo\<close>; nothing is printed and nothing changed.
\<close>

theorem undo_empty_log:
  "(resolve E arg = Inr source \<and>
      (exists E (fs s) (source @ [LOG_FILE]) = Inr False \<or>
       exists E (fs s) (source @ [LOG_FILE]) = Inr True \<and>
       read_text E (fs s) (source @ [LOG_FILE]) = Inr (JsonText log) \<and>
       dict_get log ''moves'' = Inr mvs \<and> \<not> truthy mvs) \<longrightarrow>
    undo E arg s = (Inr (), s\<lparr>out := out s @ [NothingToUndo]\<rparr>)) \<and>
   (resolve E arg = Inl e \<longrightarrow> undo E arg s = (Inl e, s)) \<and>
   (resolve E arg = Inr source \<and> load_log E source s = Inl e \<longrightarrow> undo E arg s = (Inl e, s))"
proof (intro conjI impI)
  assume a: "resolve E arg = Inr source \<and>
      (exists E (fs s) (source @ [LOG_FILE]) = Inr False \<or>
       exists E (fs s) (source @ [LOG_FILE]) = Inr True \<and>
       read_text E (fs s) (source @ [LOG_FILE]) = Inr (JsonText log) \<and>
       dict_get log ''moves'' = Inr mvs \<and> \<not> truthy mvs)"
  then have r: "resolve E arg = Inr source" by simp
  from a consider "exists E (fs s) (source @ [LOG_FILE]) = Inr False"
    | "exists E (fs s) (source @ [LOG_FILE]) = Inr True"
      "read_text E (fs s) (source @ [LOG_FILE]) = Inr (JsonText log)"
      "dict_get log ''moves'' = Inr mvs" "\<not> truthy mvs"
    by blast
  then show "undo E arg s = (Inr (), s\<lparr>out := out s @ [NothingToUndo]\<rparr>)"
  proof cases
    case 1
    then have "load_log E source s = Inr (JObj [(''moves'', JArr [])])"
      by (simp add: load_log_Inr)
    with r show ?thesis by (simp add: undo_def say_def)
  next
    case 2
    then have "load_log E source s = Inr log" by (simp add: load_log_Inr)
    with r 2(3,4) show ?thesis by (simp add: undo_def say_def)
  qed
next
  assume "resolve E arg = Inl e"
  then show "undo E arg s = (Inl e, s)" by (simp add: undo_def)
next
  assume "resolve E arg = Inr source \<and> load_log E source s = Inl e"
  then show "undo E arg s = (Inl e, s)" by (simp add: undo_def)
qed

theorem undo_empty_log_witness:
  "undo env0 ''/home/u/Desktop'' (start one_png) =
     (Inr (), (start one_png)\<lparr>out := [NothingToUndo]\<rparr>) \<and>
   undo env0 ''/home/u/Desktop''
       (start (home_fs [(LOG_FILE, File (JsonText (JObj [(''moves'', JArr [])])))])) =
     (Inr (), (start (home_fs [(LOG_FILE, File (JsonText (JObj [(''moves'', JArr [])])))]))
        \<lparr>out := [NothingToUndo]\<rparr>) \<and>
   undo env0 ''/home/u/Desktop'' (start (home_fs [(LOG_FILE, File (Blob ''{''))])) =
     (Inl ValueError, start (home_fs [(LOG_FILE, File (Blob ''{''))]))"
proof -
  let ?s = "start one_png"
  let ?s' = "start (home_fs [(LOG_FILE, File (JsonText (JObj [(''moves'', JArr [])])))])"
  let ?s'' = "start (home_fs [(LOG_FILE, File (Blob ''{''))])"
  have r: "resolve env0 ''/home/u/Desktop'' = Inr desktop" by code_simp
  have a: "exists env0 (fs ?s) (desktop @ [LOG_FILE]) = Inr False" by code_simp
  have b: "exists env0 (fs ?s') (desktop @ [LOG_FILE]) = Inr True"
    "read_text env0 (fs ?s') (desktop @ [LOG_FILE]) = Inr (JsonText (JObj [(''moves'', JArr [])]))"
    "dict_get (JObj [(''moves'', JArr [])]) ''moves'' = Inr (JArr [])" "\<not> truthy (JArr [])"
    by code_simp+
  have c: "load_log env0 desktop ?s'' = Inl ValueError" by code_simp
  have o: "out ?s = []" "out ?s' = []" by (simp_all add: start_def)
  have 1: "undo env0 ''/home/u/Desktop'' ?s = (Inr (), ?s\<lparr>out := out ?s @ [NothingToUndo]\<rparr>)"
    using undo_empty_log [of env0 "''/home/u/Desktop''" desktop ?s, THEN conjunct1] r a
    by blast
  have 2: "undo env0 ''/home/u/Desktop'' ?s' = (Inr (), ?s'\<lparr>out := out ?s' @ [NothingToUndo]\<rparr>)"
    using undo_empty_log [of env0 "''/home/u/Desktop''" desktop ?s'
        "JObj [(''moves'', JArr [])]" "JArr []", THEN conjunct1] r b
    by blast
  have 3: "undo env0 ''/home/u/Desktop'' ?s'' = (Inl ValueError, ?s'')"
    using undo_empty_log [of env0 "''/home/u/Desktop''" desktop ?s'' _ _ ValueError,
        THEN conjunct2, THEN conjunct2] r c
    by blast
  from 1 2 3 o show ?thesis by simp
qed

text \<open>
  C9, as the specification has it, fails. The directory of \<open>one_png\<close> holds no log, and
  \<open>undo\<close> on it does not report that there is nothing to undo when the system refuses
  the \<open>stat\<close> of the log file's path (a directory without search permission): the
  existence check of \<open>load_log\<close> raises \<open>PermissionError\<close>.
\<close>

theorem undo_absent_log_raises:
  "lookup one_png (desktop @ [LOG_FILE]) = None \<and>
   undo (env0\<lparr>refused := (\<lambda>c. if c = Stat (desktop @ [LOG_FILE]) then Some PermissionError else None)\<rparr>)
        ''/home/u/Desktop'' (start one_png) = (Inl PermissionError, start one_png)"
  by code_simp

section \<open>Dry run\<close>

text \<open>
  C2. A dry run of \<open>organize\<close> on a directory holding the one file \<open>a.png\<close> returns
  \<open>True\<close> and leaves the file where it was, but the directory \<open>Images\<close>, absent
  before, exists after it: \<open>ensure_folder\<close> (line 75) runs before the test of
  \<open>dry_run\<close> (line 78).
\<close>

theorem dry_run_creates_folder:
  "lookup (fs (start one_png)) (desktop @ [''Images'']) = None \<and>
   (case organize env0 ''/home/u/Desktop'' True (start one_png) of
      (r, s') \<Rightarrow> r = Inr True \<and> lookup (fs s') (desktop @ [''Images'']) = Some (Dir []) \<and>
        fs s' = home_fs [(''a.png'', File (Blob ''A'')), (''Images'', Dir [])])"
  by code_simp

theorem dry_run_creates_folder_witness:
  "lookup (fs (start one_png)) (desktop @ [''Images'']) = None \<and>
   lookup (fs (snd (organize env0 ''/home/u/Desktop'' True (start one_png)))) (desktop @ [''Images''])
     = Some (Dir [])"
  using dry_run_creates_folder
  by (simp add: home_fs_def desktop_def split: prod.splits)

section \<open>What a step leaves as it was\<close>













section \<open>The loop of organize\<close>





lemma name_is_log: "name (p @ [x]) = LOG_FILE \<longleftrightarrow> x = LOG_FILE"
  by (auto simp: name_def LOG_FILE_def)

lemma organize_loop_skip:
  "organize_loop E source dry_run (LOG_FILE # rest) moved s =
   organize_loop E source dry_run rest moved s"
  by (simp add: name_is_log Let_def)





section \<open>The records of a run and the saved log\<close>









section \<open>The log undo leaves\<close>


section \<open>The log file is never organized\<close>




section \<open>The shape of the persisted log\<close>




end
